theory Spec2Isabelle
  imports Complex_Main "HOL-Library.AList"
begin

section \<open>Strings as the scripts use them\<close>

text \<open>
  A Python \<open>str\<close> is modelled as a \<open>string\<close>, one \<open>char\<close> per code point below 256.
  \<open>isspace\<close> lists the code points in that range for which \<open>str.isspace\<close> holds; they are
  the ones \<open>str.strip()\<close> removes and the regular expression class \<open>\s\<close> accepts.
  \<open>upper\<close> raises the ASCII letters; no other code point below 256 upper-cases to an
  ASCII string, so membership of \<open>grade.upper()\<close> in a table of ASCII keys is unaffected.
\<close>

definition isspace :: "char \<Rightarrow> bool" where
  "isspace c = (let n = (of_char c :: nat)
     in (9 \<le> n \<and> n \<le> 13) \<or> (28 \<le> n \<and> n \<le> 32) \<or> n = 133 \<or> n = 160)"

definition strip :: "string \<Rightarrow> string" where
  "strip s = rev (dropWhile isspace (rev (dropWhile isspace s)))"

definition upper_char :: "char \<Rightarrow> char" where
  "upper_char c = (let n = (of_char c :: nat)
     in if 97 \<le> n \<and> n \<le> 122 then char_of (n - 32) else c)"

definition upper :: "string \<Rightarrow> string" where
  "upper s = map upper_char s"

definition is_upper_AZ :: "char \<Rightarrow> bool" where
  "is_upper_AZ c = (let n = (of_char c :: nat) in 65 \<le> n \<and> n \<le> 90)"

definition is_digit :: "char \<Rightarrow> bool" where
  "is_digit c = (let n = (of_char c :: nat) in 48 \<le> n \<and> n \<le> 57)"

definition startswith :: "string \<Rightarrow> string \<Rightarrow> bool" where
  "startswith s p = (take (length p) s = p)"

section \<open>Grade table (audit\_l2.py, audit\_l3.py)\<close>

text \<open>
  Credits and grade points are Python floats; they are modelled as exact rationals, the
  decimals the table and the transcripts write.
\<close>

definition GRADE_POINTS :: "(string \<times> rat) list" where
  "GRADE_POINTS =
     [(''A'', 4), (''A-'', 37/10),
      (''B+'', 33/10), (''B'', 3), (''B-'', 27/10),
      (''C+'', 23/10), (''C'', 2), (''C-'', 17/10),
      (''D+'', 13/10), (''D'', 1), (''F'', 0)]"

text \<open>\<open>get_grade_points\<close> of audit\_l2.py: \<open>GRADE_POINTS.get(grade.upper(), None)\<close>.\<close>

definition get_grade_points :: "string \<Rightarrow> rat option" where
  "get_grade_points g = map_of GRADE_POINTS (upper g)"

text \<open>\<open>is_passing\<close> of audit\_l3.py: \<open>grade.upper() not in ['F', 'W', 'I', 'X']\<close>.\<close>

definition is_passing :: "string \<Rightarrow> bool" where
  "is_passing g = (upper g \<notin> set [''F'', ''W'', ''I'', ''X''])"

section \<open>Transcript rows and the latest-attempt history\<close>

text \<open>
  A row of the transcript as \<open>csv.DictReader\<close> hands it over. \<open>Credits\<close> holds the
  outcome of \<open>float(row['Credits'])\<close>: \<open>Some q\<close> when the text is the decimal number
  \<open>q\<close>, \<open>None\<close> when the conversion raises. The texts \<open>inf\<close> and \<open>nan\<close>, which \<open>float\<close>
  accepts as well, have no counterpart here.
\<close>

record row =
  Course_Code :: string
  Credits :: "rat option"
  Grade :: string

record attempt =
  grade :: string
  credits :: rat
  points :: rat

text \<open>
  A Python dict keeps its keys in order of first insertion and overwrites in place;
  \<open>AList.update\<close> on an association list does the same.
\<close>

type_synonym history = "(string \<times> attempt) list"

definition row_credits :: "row \<Rightarrow> rat" where
  "row_credits r = (case Credits r of Some q \<Rightarrow> q | None \<Rightarrow> 0)"

section \<open>calculate\_cgpa (audit\_l2.py)\<close>

definition l2_row :: "string list \<Rightarrow> history \<Rightarrow> row \<Rightarrow> history" where
  "l2_row waivers course_history r =
     (let course_code = strip (Course_Code r);
          g = strip (Grade r)
      in if course_code \<in> set waivers then course_history
         else (let cr = row_credits r
               in case get_grade_points g of
                    Some p \<Rightarrow> AList.update course_code
                                \<lparr>grade = g, credits = cr, points = p\<rparr> course_history
                  | None \<Rightarrow> course_history))"

definition l2_course_history :: "row list \<Rightarrow> string list \<Rightarrow> history" where
  "l2_course_history entries waivers = foldl (l2_row waivers) [] entries"

definition gpa_step :: "rat \<times> rat \<Rightarrow> attempt \<Rightarrow> rat \<times> rat" where
  "gpa_step acc d =
     (if credits d > 0 then (fst acc + points d * credits d, snd acc + credits d) else acc)"

definition gpa_totals :: "history \<Rightarrow> rat \<times> rat" where
  "gpa_totals course_history = foldl gpa_step (0, 0) (map snd course_history)"

text \<open>The value printed on the \<open>CGPA:\<close> line (0.00 when no GPA credits were attempted).\<close>

definition calculate_cgpa :: "row list \<Rightarrow> string list \<Rightarrow> rat" where
  "calculate_cgpa entries waivers =
     (let t = gpa_totals (l2_course_history entries waivers)
      in if snd t > 0 then fst t / snd t else 0)"

section \<open>audit\_student (audit\_l3.py)\<close>

record requirements =
  total_credits_required :: nat
  min_cgpa :: rat
  mandatory_ged :: "string list"
  core_math :: "string list"
  major_core :: "string list"
  core_business :: "string list"
  core_science :: "string list"

record missing =
  GED :: "string list"
  Math :: "string list"
  Core :: "string list"
  Science :: "string list"
  Business :: "string list"

text \<open>\<open>passed_courses\<close> is a Python set: a list without duplicates, in no particular order.\<close>

record audit =
  total_earned :: rat
  cgpa :: rat
  missing :: missing
  passed_courses :: "string list"

definition l3_row :: "string list \<times> history \<Rightarrow> row \<Rightarrow> string list \<times> history" where
  "l3_row st r =
     (let course = strip (Course_Code r);
          g = strip (Grade r);
          cr = row_credits r;
          passed = (if is_passing g then List.insert course (fst st) else fst st);
          course_history =
            (case map_of GRADE_POINTS g of
               Some p \<Rightarrow> AList.update course \<lparr>grade = g, credits = cr, points = p\<rparr> (snd st)
             | None \<Rightarrow> snd st)
      in (passed, course_history))"

definition l3_accumulate :: "row list \<Rightarrow> string list \<times> history" where
  "l3_accumulate rows = foldl l3_row ([], []) rows"

definition earned_step :: "history \<Rightarrow> rat \<Rightarrow> string \<Rightarrow> rat" where
  "earned_step course_history acc course =
     (case map_of course_history course of Some cur \<Rightarrow> acc + credits cur | None \<Rightarrow> acc)"

definition not_passed :: "string list \<Rightarrow> string list \<Rightarrow> string list" where
  "not_passed passed reqs = filter (\<lambda>req. req \<notin> set passed) reqs"

definition audit_student :: "row list \<Rightarrow> requirements \<Rightarrow> audit" where
  "audit_student rows reqs =
     (let st = l3_accumulate rows;
          passed = fst st;
          course_history = snd st;
          total_earned_credits = foldl (earned_step course_history) 0 passed;
          t = gpa_totals course_history;
          g = (if snd t > 0 then fst t / snd t else 0)
      in \<lparr>total_earned = total_earned_credits,
          cgpa = g,
          missing = \<lparr>GED = not_passed passed (mandatory_ged reqs),
                      Math = not_passed passed (core_math reqs),
                      Core = not_passed passed (major_core reqs),
                      Science = not_passed passed (core_science reqs),
                      Business = not_passed passed (core_business reqs)\<rparr>,
          passed_courses = passed\<rparr>)"

text \<open>The verdict \<open>is_eligible\<close> computed by \<open>print_report\<close>.\<close>

definition has_missing :: "audit \<Rightarrow> bool" where
  "has_missing a =
     list_ex (\<lambda>m. length m > 0)
       [GED (missing a), Math (missing a), Core (missing a),
        Science (missing a), Business (missing a)]"

definition is_eligible :: "audit \<Rightarrow> requirements \<Rightarrow> bool" where
  "is_eligible a reqs =
     (let req_credits = total_credits_required reqs;
          cgpa_ok = (cgpa a \<ge> min_cgpa reqs);
          credits_ok = (total_earned a \<ge> of_nat req_credits)
      in cgpa_ok \<and> credits_ok \<and> \<not> has_missing a)"

section \<open>parse\_program\_knowledge (audit\_l3.py)\<close>

text \<open>
  The document is the list of lines \<open>f.readlines()\<close> returns. The three regular
  expressions are written out as list functions.
\<close>

datatype category = PROGRAM_HEADER | SEC_GED | SEC_MATH | SEC_CORE | SEC_BUSINESS | SEC_SCIENCE

datatype error = AttributeError

record pstate =
  reqs :: requirements
  current_section :: "category option"
  target_program_found :: bool

text \<open>
  \<open>re.match(r'^## \[Program: (.*)\]', line)\<close>, giving \<open>group(1)\<close>: the greedy \<open>.*\<close> runs
  to the last closing bracket before any newline.
\<close>

definition program_match :: "string \<Rightarrow> string option" where
  "program_match line =
     (let p = ''## [Program: ''
      in if startswith line p
         then (let rest = takeWhile (\<lambda>c. c \<noteq> CHR 0x0A) (drop (length p) line)
               in if CHR '']'' \<in> set rest
                  then Some (rev (tl (dropWhile (\<lambda>c. c \<noteq> CHR '']'') (rev rest))))
                  else None)
         else None)"

text \<open>\<open>re.search(r'\d+', line)\<close>, giving \<open>group()\<close>: the first run of digits.\<close>

definition first_digits :: "string \<Rightarrow> string option" where
  "first_digits line =
     (let r = dropWhile (\<lambda>c. \<not> is_digit c) line
      in if r = [] then None else Some (takeWhile is_digit r))"

definition int_of_digits :: "string \<Rightarrow> nat" where
  "int_of_digits ds = foldl (\<lambda>n c. 10 * n + (of_char c - 48)) 0 ds"

text \<open>\<open>re.search(r'^\s*-\s*([A-Z]{3}\d{3}[L]?)', line)\<close>, giving \<open>group(1)\<close>.\<close>

definition course_match :: "string \<Rightarrow> string option" where
  "course_match line =
     (case dropWhile isspace line of
        [] \<Rightarrow> None
      | c # r \<Rightarrow>
          if c \<noteq> CHR ''-'' then None
          else (let t = dropWhile isspace r
                in if length t \<ge> 6 \<and> list_all is_upper_AZ (take 3 t)
                      \<and> list_all is_digit (take 3 (drop 3 t))
                   then Some (take 6 t @ (if startswith (drop 6 t) ''L'' then ''L'' else []))
                   else None))"

definition initial_requirements :: requirements where
  "initial_requirements =
     \<lparr>total_credits_required = 0, min_cgpa = 2,
      mandatory_ged = [], core_math = [], major_core = [],
      core_business = [], core_science = []\<rparr>"

text \<open>The \<open>if\<close>/\<open>elif\<close> chain over the label lines; a credits line without digits raises.\<close>

definition parse_label :: "pstate \<Rightarrow> string \<Rightarrow> error + pstate" where
  "parse_label st line =
     (if startswith line ''- **Total Credits Required**:'' then
        (case first_digits line of
           None \<Rightarrow> Inl AttributeError
         | Some ds \<Rightarrow> Inr (st\<lparr>reqs := (reqs st)\<lparr>total_credits_required := int_of_digits ds\<rparr>\<rparr>))
      else if startswith line ''- **Minimum CGPA**:'' then Inr st
      else if startswith line ''- **Mandatory GED**:'' then Inr (st\<lparr>current_section := Some SEC_GED\<rparr>)
      else if startswith line ''- **Core Math**:'' then Inr (st\<lparr>current_section := Some SEC_MATH\<rparr>)
      else if startswith line ''- **Major Core**:'' then Inr (st\<lparr>current_section := Some SEC_CORE\<rparr>)
      else if startswith line ''- **Core Business**:'' then Inr (st\<lparr>current_section := Some SEC_BUSINESS\<rparr>)
      else if startswith line ''- **Core Science**:'' then Inr (st\<lparr>current_section := Some SEC_SCIENCE\<rparr>)
      else Inr st)"

definition add_course :: "category option \<Rightarrow> string \<Rightarrow> requirements \<Rightarrow> requirements" where
  "add_course sec course_code rq =
     (case sec of
        Some SEC_GED \<Rightarrow> rq\<lparr>mandatory_ged := mandatory_ged rq @ [course_code]\<rparr>
      | Some SEC_MATH \<Rightarrow> rq\<lparr>core_math := core_math rq @ [course_code]\<rparr>
      | Some SEC_CORE \<Rightarrow> rq\<lparr>major_core := major_core rq @ [course_code]\<rparr>
      | Some SEC_BUSINESS \<Rightarrow> rq\<lparr>core_business := core_business rq @ [course_code]\<rparr>
      | Some SEC_SCIENCE \<Rightarrow> rq\<lparr>core_science := core_science rq @ [course_code]\<rparr>
      | _ \<Rightarrow> rq)"

definition parse_course :: "pstate \<Rightarrow> string \<Rightarrow> pstate" where
  "parse_course st line =
     (case course_match line of
        Some course_code \<Rightarrow> st\<lparr>reqs := add_course (current_section st) course_code (reqs st)\<rparr>
      | None \<Rightarrow> st)"

text \<open>One turn of the loop over the lines.\<close>

definition parse_line :: "string \<Rightarrow> pstate \<Rightarrow> string \<Rightarrow> error + pstate" where
  "parse_line program_name st raw =
     (let line = strip raw
      in case program_match line of
           Some name \<Rightarrow>
             if strip name = program_name
             then Inr (st\<lparr>target_program_found := True, current_section := Some PROGRAM_HEADER\<rparr>)
             else Inr (st\<lparr>target_program_found := False, current_section := None\<rparr>)
         | None \<Rightarrow>
             if \<not> target_program_found st then Inr st
             else (case parse_label st line of
                     Inl e \<Rightarrow> Inl e
                   | Inr st' \<Rightarrow> Inr (parse_course st' line)))"

fun parse_lines :: "string \<Rightarrow> pstate \<Rightarrow> string list \<Rightarrow> error + pstate" where
  "parse_lines program_name st [] = Inr st"
| "parse_lines program_name st (l # ls) =
     (case parse_line program_name st l of
        Inl e \<Rightarrow> Inl e
      | Inr st' \<Rightarrow> parse_lines program_name st' ls)"

definition initial_pstate :: pstate where
  "initial_pstate =
     \<lparr>reqs = initial_requirements, current_section = None, target_program_found = False\<rparr>"

definition parse_program_knowledge :: "string list \<Rightarrow> string \<Rightarrow> error + requirements" where
  "parse_program_knowledge lines program_name =
     (case parse_lines program_name initial_pstate lines of
        Inl e \<Rightarrow> Inl e
      | Inr st \<Rightarrow> Inr (reqs st))"

text \<open>The dict \<open>course_history\<close> of \<open>audit_student\<close> once the loop over the rows has ended.\<close>

definition latest_attempt :: "row list \<Rightarrow> history" where
  "latest_attempt rows = snd (l3_accumulate rows)"

section \<open>Sections of the requirements document\<close>

text \<open>
  A line is a program header when the header pattern matches it after \<open>strip()\<close>, and a
  header of the target when moreover the trimmed name in it is the target name. Line
  \<open>k\<close> lies in a section of the target when a header of the target precedes it with no
  header from there up to and including line \<open>k\<close>.
\<close>

definition is_header :: "string \<Rightarrow> bool" where
  "is_header raw = (program_match (strip raw) \<noteq> None)"

definition is_target_header :: "string \<Rightarrow> string \<Rightarrow> bool" where
  "is_target_header program_name raw =
     (case program_match (strip raw) of
        Some name \<Rightarrow> strip name = program_name
      | None \<Rightarrow> False)"

definition in_target_section :: "string list \<Rightarrow> string \<Rightarrow> nat \<Rightarrow> bool" where
  "in_target_section lines program_name k =
     (\<exists>h \<in> {..<k}. is_target_header program_name (lines ! h)
         \<and> (\<forall>m \<in> {h<..k}. \<not> is_header (lines ! m)))"

definition category_codes :: "requirements \<Rightarrow> string set" where
  "category_codes rq =
     set (mandatory_ged rq) \<union> set (core_math rq) \<union> set (major_core rq)
       \<union> set (core_business rq) \<union> set (core_science rq)"

text \<open>
  The specification's reading of the \<open>Minimum CGPA\<close> label: the decimal number written
  after the label on such a line of the target's section (the last one, should there be
  several), and 2.0 when the section has no such line. It is stated here to be compared
  with what \<open>parse_program_knowledge\<close> returns.
\<close>

definition spec_decimal :: "string \<Rightarrow> rat option" where
  "spec_decimal s =
     (let t = dropWhile (\<lambda>c. \<not> is_digit c) s;
          ip = takeWhile is_digit t;
          fp = (case dropWhile is_digit t of
                  c # f \<Rightarrow> if c = CHR ''.'' then takeWhile is_digit f else []
                | [] \<Rightarrow> [])
      in if ip = [] then None
         else Some (of_nat (int_of_digits ip) + of_nat (int_of_digits fp) / 10 ^ length fp))"

definition spec_min_cgpa :: "string list \<Rightarrow> string \<Rightarrow> rat" where
  "spec_min_cgpa lines program_name =
     (case List.map_filter
             (\<lambda>k. if in_target_section lines program_name k
                      \<and> startswith (strip (lines ! k)) ''- **Minimum CGPA**:''
                   then spec_decimal (drop (length ''- **Minimum CGPA**:'') (strip (lines ! k)))
                   else None)
             [0..<length lines] of
        [] \<Rightarrow> 2
      | v # vs \<Rightarrow> last (v # vs))"

text \<open>
  Two predicates on a prefix \<open>xs\<close> of the document, for the loop invariant: a section of
  the target is open at the end of \<open>xs\<close>; the code \<open>c\<close> is that of a bullet line of \<open>xs\<close>
  inside a section of the target.
\<close>

definition open_at :: "string list \<Rightarrow> string \<Rightarrow> bool" where
  "open_at xs pn =
     (\<exists>h < length xs. is_target_header pn (xs ! h)
         \<and> (\<forall>m. h < m \<and> m < length xs \<longrightarrow> \<not> is_header (xs ! m)))"

definition from_section :: "string list \<Rightarrow> string \<Rightarrow> string \<Rightarrow> bool" where
  "from_section xs pn c =
     (\<exists>k < length xs. in_target_section xs pn k \<and> course_match (strip (xs ! k)) = Some c)"

section \<open>Properties of the transcript accumulation\<close>

lemma l3_passed_set:
  "set (fst (foldl l3_row st rows)) =
     set (fst st) \<union> {strip (Course_Code r) | r. r \<in> set rows \<and> is_passing (strip (Grade r))}"
proof (induction rows arbitrary: st)
  case Nil
  show ?case by simp
next
  case (Cons r rows)
  have "set (fst (l3_row st r)) =
          set (fst st) \<union> (if is_passing (strip (Grade r)) then {strip (Course_Code r)} else {})"
    by (simp add: l3_row_def Let_def)
  with Cons show ?case by auto
qed

lemma l3_passed_distinct:
  "distinct (fst st) \<Longrightarrow> distinct (fst (foldl l3_row st rows))"
proof (induction rows arbitrary: st)
  case Nil
  then show ?case by simp
next
  case (Cons r rows)
  from Cons.prems have "distinct (fst (l3_row st r))"
    by (simp add: l3_row_def Let_def)
  then show ?case using Cons.IH by simp
qed

lemma passed_courses_audit: "passed_courses (audit_student rows rq) = fst (l3_accumulate rows)"
  by (simp add: audit_student_def Let_def)

text \<open>
  C6. A course code is in \<open>passed_courses\<close> exactly when some row with that (trimmed) code
  has a (trimmed) grade whose upper-cased form is none of F, W, I, X, whether or not the
  grade has a point value. The set holds each code once, and rows that follow, failing
  retakes included, remove nothing from it.
\<close>

theorem passed_courses_iff:
  "(c \<in> set (passed_courses (audit_student rows rq)) \<longleftrightarrow>
      (\<exists>r \<in> set rows. strip (Course_Code r) = c
          \<and> upper (strip (Grade r)) \<notin> {''F'', ''W'', ''I'', ''X''}))
   \<and> distinct (passed_courses (audit_student rows rq))
   \<and> set (passed_courses (audit_student rows rq))
        \<subseteq> set (passed_courses (audit_student (rows @ later) rq))"
proof (intro conjI)
  show "c \<in> set (passed_courses (audit_student rows rq)) \<longleftrightarrow>
      (\<exists>r \<in> set rows. strip (Course_Code r) = c
          \<and> upper (strip (Grade r)) \<notin> {''F'', ''W'', ''I'', ''X''})"
    unfolding passed_courses_audit l3_accumulate_def l3_passed_set
    by (auto simp: is_passing_def)
  show "distinct (passed_courses (audit_student rows rq))"
    unfolding passed_courses_audit l3_accumulate_def
    by (rule l3_passed_distinct) simp
  show "set (passed_courses (audit_student rows rq))
        \<subseteq> set (passed_courses (audit_student (rows @ later) rq))"
    unfolding passed_courses_audit l3_accumulate_def l3_passed_set
    by auto
qed

lemma foldl_earned_step:
  "foldl (earned_step h) acc cs =
     acc + sum_list (map (\<lambda>c. case map_of h c of Some e \<Rightarrow> credits e | None \<Rightarrow> 0) cs)"
  by (induction cs arbitrary: acc) (auto simp: earned_step_def split: option.splits)

text \<open>
  C4. \<open>total_earned_credits\<close> is the sum, over the set of passed codes (each code once), of
  the credit weight that \<open>latest_attempt\<close> records for the code, and of 0 for a code
  without an entry there.
\<close>

theorem total_earned_sum:
  "total_earned (audit_student rows rq) =
     (\<Sum>c \<in> set (passed_courses (audit_student rows rq)).
        case map_of (latest_attempt rows) c of Some e \<Rightarrow> credits e | None \<Rightarrow> 0)"
proof -
  have d: "distinct (fst (l3_accumulate rows))"
    unfolding l3_accumulate_def by (rule l3_passed_distinct) simp
  have "total_earned (audit_student rows rq) =
          sum_list (map (\<lambda>c. case map_of (latest_attempt rows) c of
                               Some e \<Rightarrow> credits e | None \<Rightarrow> 0) (fst (l3_accumulate rows)))"
    by (simp add: audit_student_def Let_def foldl_earned_step latest_attempt_def)
  also have "\<dots> = (\<Sum>c \<in> set (fst (l3_accumulate rows)).
        case map_of (latest_attempt rows) c of Some e \<Rightarrow> credits e | None \<Rightarrow> 0)"
    using d by (rule sum_list_distinct_conv_sum_set)
  finally show ?thesis by (simp add: passed_courses_audit)
qed

lemma foldl_gpa_step:
  "foldl gpa_step acc es =
     (fst acc + sum_list (map (\<lambda>e. points e * credits e) (filter (\<lambda>e. credits e > 0) es)),
      snd acc + sum_list (map credits (filter (\<lambda>e. credits e > 0) es)))"
  by (induction es arbitrary: acc) (auto simp: gpa_step_def)

lemma sum_pos_credits_nonneg:
  "0 \<le> sum_list (map credits (filter (\<lambda>e. credits e > 0) es))"
  by (induction es) auto

lemma l3_history_distinct:
  "distinct (map fst (snd st)) \<Longrightarrow> distinct (map fst (snd (foldl l3_row st rows)))"
proof (induction rows arbitrary: st)
  case Nil
  then show ?case by simp
next
  case (Cons r rows)
  from Cons.prems have "distinct (map fst (snd (l3_row st r)))"
    by (simp add: l3_row_def Let_def distinct_update split: option.splits)
  then show ?case using Cons.IH by simp
qed

text \<open>
  C5. \<open>latest_attempt\<close> holds one entry per code; \<open>cgpa\<close> is the sum of points times
  credits over its entries with a credit weight above 0, divided by the sum of those
  credit weights, and 0 when that sum is 0. Entries with credit weight 0 are in neither
  sum.
\<close>

theorem cgpa_formula:
  "distinct (map fst (latest_attempt rows)) \<and>
   cgpa (audit_student rows rq) =
     (let es = filter (\<lambda>e. credits e > 0) (map snd (latest_attempt rows));
          den = sum_list (map credits es);
          num = sum_list (map (\<lambda>e. points e * credits e) es)
      in if den = 0 then 0 else num / den)"
proof
  show "distinct (map fst (latest_attempt rows))"
    unfolding latest_attempt_def l3_accumulate_def by (rule l3_history_distinct) simp
  let ?es = "filter (\<lambda>e. credits e > 0) (map snd (latest_attempt rows))"
  have nn: "0 \<le> sum_list (map credits ?es)" by (rule sum_pos_credits_nonneg)
  have "cgpa (audit_student rows rq) =
          (if sum_list (map credits ?es) > 0
           then sum_list (map (\<lambda>e. points e * credits e) ?es) / sum_list (map credits ?es)
           else 0)"
    by (simp add: audit_student_def Let_def gpa_totals_def foldl_gpa_step latest_attempt_def)
  also have "\<dots> = (if sum_list (map credits ?es) = 0 then 0
           else sum_list (map (\<lambda>e. points e * credits e) ?es) / sum_list (map credits ?es))"
    using nn by auto
  finally show "cgpa (audit_student rows rq) =
     (let es = filter (\<lambda>e. credits e > 0) (map snd (latest_attempt rows));
          den = sum_list (map credits es);
          num = sum_list (map (\<lambda>e. points e * credits e) es)
      in if den = 0 then 0 else num / den)"
    by (simp add: Let_def)
qed

text \<open>The rows \<open>(CSE115, 3, A)\<close> and \<open>( CSE115, 3, f )\<close>: the code is passed with both, not with the second alone.\<close>

theorem passed_courses_iff_witness:
  "''CSE115'' \<in> set (passed_courses (audit_student
       [\<lparr>Course_Code = ''CSE115'', Credits = Some 3, Grade = ''A''\<rparr>,
        \<lparr>Course_Code = '' CSE115'', Credits = Some 3, Grade = ''f ''\<rparr>] initial_requirements))
   \<and> ''CSE115'' \<notin> set (passed_courses (audit_student
       [\<lparr>Course_Code = '' CSE115'', Credits = Some 3, Grade = ''f ''\<rparr>] initial_requirements))"
proof -
  have a: "strip ''CSE115'' = ''CSE115''" "strip '' CSE115'' = ''CSE115''"
    by code_simp+
  have b: "upper (strip ''A'') = ''A''" "upper (strip ''f '') = ''F''"
    by code_simp+
  show ?thesis
    using passed_courses_iff [of "''CSE115''"
        "[\<lparr>Course_Code = ''CSE115'', Credits = Some 3, Grade = ''A''\<rparr>,
          \<lparr>Course_Code = '' CSE115'', Credits = Some 3, Grade = ''f ''\<rparr>]" initial_requirements "[]"]
      passed_courses_iff [of "''CSE115''"
        "[\<lparr>Course_Code = '' CSE115'', Credits = Some 3, Grade = ''f ''\<rparr>]" initial_requirements "[]"]
    by (simp add: a b)
qed

section \<open>The verdict\<close>

text \<open>
  C1. The verdict of \<open>print_report\<close> is true exactly when the CGPA reaches the minimum,
  the earned credits reach the required total and each of the five missing lists is
  empty. With the CGPA and the missing lists in order, the verdict for earned credits
  \<open>t\<close> is true exactly when \<open>t\<close> is at least the required total.
\<close>

theorem eligible_iff:
  "(is_eligible a rq \<longleftrightarrow>
      cgpa a \<ge> min_cgpa rq
      \<and> total_earned a \<ge> of_nat (total_credits_required rq)
      \<and> GED (missing a) = [] \<and> Math (missing a) = [] \<and> Core (missing a) = []
      \<and> Science (missing a) = [] \<and> Business (missing a) = [])
   \<and> (cgpa a \<ge> min_cgpa rq
      \<and> GED (missing a) = [] \<and> Math (missing a) = [] \<and> Core (missing a) = []
      \<and> Science (missing a) = [] \<and> Business (missing a) = []
      \<longrightarrow> (is_eligible (a\<lparr>total_earned := t\<rparr>) rq \<longleftrightarrow> t \<ge> of_nat (total_credits_required rq)))"
  by (auto simp: is_eligible_def has_missing_def Let_def)

text \<open>At a required total of 130: eligible with exactly 130 credits, not with 129.5.\<close>

theorem eligible_iff_witness:
  "is_eligible
     \<lparr>total_earned = 130, cgpa = 3,
      missing = \<lparr>GED = [], Math = [], Core = [], Science = [], Business = []\<rparr>,
      passed_courses = [''CSE115'']\<rparr>
     \<lparr>total_credits_required = 130, min_cgpa = 2, mandatory_ged = [''ENG102''],
      core_math = [], major_core = [''CSE115''], core_business = [], core_science = []\<rparr>
   \<and> \<not> is_eligible
     \<lparr>total_earned = 259 / 2, cgpa = 3,
      missing = \<lparr>GED = [], Math = [], Core = [], Science = [], Business = []\<rparr>,
      passed_courses = [''CSE115'']\<rparr>
     \<lparr>total_credits_required = 130, min_cgpa = 2, mandatory_ged = [''ENG102''],
      core_math = [], major_core = [''CSE115''], core_business = [], core_science = []\<rparr>"
  using eligible_iff [of
     "\<lparr>total_earned = 0, cgpa = 3,
      missing = \<lparr>GED = [], Math = [], Core = [], Science = [], Business = []\<rparr>,
      passed_courses = [''CSE115'']\<rparr>"
     "\<lparr>total_credits_required = 130, min_cgpa = 2, mandatory_ged = [''ENG102''],
      core_math = [], major_core = [''CSE115''], core_business = [], core_science = []\<rparr>" 130]
    eligible_iff [of
     "\<lparr>total_earned = 0, cgpa = 3,
      missing = \<lparr>GED = [], Math = [], Core = [], Science = [], Business = []\<rparr>,
      passed_courses = [''CSE115'']\<rparr>"
     "\<lparr>total_credits_required = 130, min_cgpa = 2, mandatory_ged = [''ENG102''],
      core_math = [], major_core = [''CSE115''], core_business = [], core_science = []\<rparr>" "259 / 2"]
  by simp

section \<open>Grade points in the two scripts\<close>

text \<open>
  C3. audit\_l2.py looks the grade up after \<open>upper()\<close>; \<open>audit_student\<close> of audit\_l3.py
  looks it up as written. For the row \<open>(CSE115, 3, a)\<close> the first finds 4.0 and a CGPA of
  4, the second finds no point value, records no attempt and reports a CGPA of 0.
\<close>

theorem l3_grade_lookup_case_sensitive:
  "get_grade_points ''a'' = Some 4
   \<and> calculate_cgpa [\<lparr>Course_Code = ''CSE115'', Credits = Some 3, Grade = ''a''\<rparr>] [] = 4
   \<and> map_of GRADE_POINTS ''a'' = None
   \<and> latest_attempt [\<lparr>Course_Code = ''CSE115'', Credits = Some 3, Grade = ''a''\<rparr>] = []
   \<and> cgpa (audit_student [\<lparr>Course_Code = ''CSE115'', Credits = Some 3, Grade = ''a''\<rparr>]
        initial_requirements) = 0"
  by code_simp

section \<open>Waivers in calculate\_cgpa\<close>

lemma l2_row_waived:
  "strip (Course_Code r) \<in> set waivers \<Longrightarrow> l2_row waivers h r = h"
  by (simp add: l2_row_def Let_def)

lemma l2_history_filter:
  "foldl (l2_row waivers) h rows =
     foldl (l2_row ws) h (filter (\<lambda>r. strip (Course_Code r) \<notin> set waivers) rows)"
  if "set ws \<subseteq> set waivers"
  using that
proof (induction rows arbitrary: h)
  case Nil
  show ?case by simp
next
  case (Cons r rows)
  show ?case
  proof (cases "strip (Course_Code r) \<in> set waivers")
    case True
    then show ?thesis using Cons by (simp add: l2_row_waived)
  next
    case False
    with Cons.prems have "strip (Course_Code r) \<notin> set ws" by auto
    with False have "l2_row waivers h r = l2_row ws h r"
      by (simp add: l2_row_def Let_def)
    with False show ?thesis using Cons by simp
  qed
qed

lemma l2_row_keys:
  "fst ` set (l2_row waivers h r) \<subseteq> fst ` set h \<union> ({strip (Course_Code r)} - set waivers)"
  by (auto simp: l2_row_def Let_def dom_update split: option.splits)

lemma l2_history_keys:
  "fst ` set (foldl (l2_row waivers) h rows) \<inter> set waivers \<subseteq> fst ` set h \<inter> set waivers"
proof (induction rows arbitrary: h)
  case Nil
  show ?case by simp
next
  case (Cons r rows)
  have "fst ` set (foldl (l2_row waivers) (l2_row waivers h r) rows) \<inter> set waivers
          \<subseteq> fst ` set (l2_row waivers h r) \<inter> set waivers"
    by (rule Cons.IH)
  also have "\<dots> \<subseteq> fst ` set h \<inter> set waivers"
    using l2_row_keys [of waivers h r] by auto
  finally show ?case by simp
qed

text \<open>
  C10. The CGPA that \<open>calculate_cgpa\<close> computes with a waiver list is the CGPA it computes
  for the rows without those whose trimmed course code is in the list (with the same
  list, or with none), and no waived code is a key of the latest-attempt history.
\<close>

theorem waivers_removed:
  "calculate_cgpa rows waivers =
     calculate_cgpa (filter (\<lambda>r. strip (Course_Code r) \<notin> set waivers) rows) []
   \<and> calculate_cgpa rows waivers =
     calculate_cgpa (filter (\<lambda>r. strip (Course_Code r) \<notin> set waivers) rows) waivers
   \<and> fst ` set (l2_course_history rows waivers) \<inter> set waivers = {}"
proof (intro conjI)
  show "calculate_cgpa rows waivers =
     calculate_cgpa (filter (\<lambda>r. strip (Course_Code r) \<notin> set waivers) rows) []"
    using l2_history_filter [of "[]" waivers "[]" rows]
    by (simp add: calculate_cgpa_def l2_course_history_def)
  show "calculate_cgpa rows waivers =
     calculate_cgpa (filter (\<lambda>r. strip (Course_Code r) \<notin> set waivers) rows) waivers"
    using l2_history_filter [of waivers waivers "[]" rows]
    by (simp add: calculate_cgpa_def l2_course_history_def)
  show "fst ` set (l2_course_history rows waivers) \<inter> set waivers = {}"
    using l2_history_keys [of waivers "[]" rows]
    by (simp add: l2_course_history_def)
qed

section \<open>Last write wins\<close>

lemma l3_row_hit:
  "map_of GRADE_POINTS (strip (Grade r)) = Some p \<Longrightarrow>
   map_of (snd (l3_row st r)) (strip (Course_Code r)) =
     Some \<lparr>grade = strip (Grade r), credits = row_credits r, points = p\<rparr>"
  by (simp add: l3_row_def Let_def update_conv')

lemma l3_row_other:
  "strip (Course_Code r) = c \<longrightarrow> map_of GRADE_POINTS (strip (Grade r)) = None \<Longrightarrow>
   map_of (snd (l3_row st r)) c = map_of (snd st) c"
  by (auto simp: l3_row_def Let_def update_conv' split: option.splits)

lemma l3_rows_other:
  "\<forall>r \<in> set rows. strip (Course_Code r) = c \<longrightarrow> map_of GRADE_POINTS (strip (Grade r)) = None \<Longrightarrow>
   map_of (snd (foldl l3_row st rows)) c = map_of (snd st) c"
proof (induction rows arbitrary: st)
  case Nil
  show ?case by simp
next
  case (Cons r rows)
  then have "map_of (snd (foldl l3_row (l3_row st r) rows)) c = map_of (snd (l3_row st r)) c"
    by simp
  also have "\<dots> = map_of (snd st) c"
    using Cons.prems by (intro l3_row_other) simp
  finally show ?case by simp
qed

lemma l2_row_hit:
  "strip (Course_Code r) \<notin> set waivers \<Longrightarrow> get_grade_points (strip (Grade r)) = Some p \<Longrightarrow>
   map_of (l2_row waivers h r) (strip (Course_Code r)) =
     Some \<lparr>grade = strip (Grade r), credits = row_credits r, points = p\<rparr>"
  by (simp add: l2_row_def Let_def update_conv')

lemma l2_row_other:
  "strip (Course_Code r) = c \<longrightarrow> get_grade_points (strip (Grade r)) = None \<Longrightarrow>
   map_of (l2_row waivers h r) c = map_of h c"
  by (auto simp: l2_row_def Let_def update_conv' split: option.splits)

lemma l2_rows_other:
  "\<forall>r \<in> set rows. strip (Course_Code r) = c \<longrightarrow> get_grade_points (strip (Grade r)) = None \<Longrightarrow>
   map_of (foldl (l2_row waivers) h rows) c = map_of h c"
proof (induction rows arbitrary: h)
  case Nil
  show ?case by simp
next
  case (Cons r rows)
  then have "map_of (foldl (l2_row waivers) (l2_row waivers h r) rows) c
               = map_of (l2_row waivers h r) c"
    by simp
  also have "\<dots> = map_of h c"
    using Cons.prems by (intro l2_row_other) simp
  finally show ?case by simp
qed

text \<open>
  In both scripts a row whose grade passes the script's own point-value test overwrites
  the entry of its code: if no later row of the same code passes that test (in
  audit\_l2.py the code is moreover not waived), the final entry for the code is that
  row's grade, credit weight and points, whatever the rows before it were. The test of
  audit\_l2.py is the case-insensitive table; the test of audit\_l3.py is the lookup of
  the grade as written.
\<close>

lemma history_last_row_by_own_test:
  "(map_of GRADE_POINTS (strip (Grade r)) = Some p
      \<and> (\<forall>r' \<in> set post. strip (Course_Code r') = strip (Course_Code r)
             \<longrightarrow> map_of GRADE_POINTS (strip (Grade r')) = None)
    \<longrightarrow> map_of (latest_attempt (pre @ r # post)) (strip (Course_Code r)) =
          Some \<lparr>grade = strip (Grade r), credits = row_credits r, points = p\<rparr>)
   \<and> (strip (Course_Code r) \<notin> set waivers
      \<and> get_grade_points (strip (Grade r)) = Some q
      \<and> (\<forall>r' \<in> set post. strip (Course_Code r') = strip (Course_Code r)
             \<longrightarrow> get_grade_points (strip (Grade r')) = None)
    \<longrightarrow> map_of (l2_course_history (pre @ r # post) waivers) (strip (Course_Code r)) =
          Some \<lparr>grade = strip (Grade r), credits = row_credits r, points = q\<rparr>)"
proof (intro conjI impI)
  assume a: "map_of GRADE_POINTS (strip (Grade r)) = Some p
      \<and> (\<forall>r' \<in> set post. strip (Course_Code r') = strip (Course_Code r)
             \<longrightarrow> map_of GRADE_POINTS (strip (Grade r')) = None)"
  let ?st = "l3_row (foldl l3_row ([], []) pre) r"
  have "map_of (latest_attempt (pre @ r # post)) (strip (Course_Code r))
          = map_of (snd (foldl l3_row ?st post)) (strip (Course_Code r))"
    by (simp add: latest_attempt_def l3_accumulate_def)
  also have "\<dots> = map_of (snd ?st) (strip (Course_Code r))"
    using a by (intro l3_rows_other) simp
  also have "\<dots> = Some \<lparr>grade = strip (Grade r), credits = row_credits r, points = p\<rparr>"
    using a by (intro l3_row_hit) simp
  finally show "map_of (latest_attempt (pre @ r # post)) (strip (Course_Code r)) =
          Some \<lparr>grade = strip (Grade r), credits = row_credits r, points = p\<rparr>" .
next
  assume a: "strip (Course_Code r) \<notin> set waivers
      \<and> get_grade_points (strip (Grade r)) = Some q
      \<and> (\<forall>r' \<in> set post. strip (Course_Code r') = strip (Course_Code r)
             \<longrightarrow> get_grade_points (strip (Grade r')) = None)"
  let ?h = "l2_row waivers (foldl (l2_row waivers) [] pre) r"
  have "map_of (l2_course_history (pre @ r # post) waivers) (strip (Course_Code r))
          = map_of (foldl (l2_row waivers) ?h post) (strip (Course_Code r))"
    by (simp add: l2_course_history_def)
  also have "\<dots> = map_of ?h (strip (Course_Code r))"
    using a by (intro l2_rows_other) simp
  also have "\<dots> = Some \<lparr>grade = strip (Grade r), credits = row_credits r, points = q\<rparr>"
    using a by (intro l2_row_hit) simp_all
  finally show "map_of (l2_course_history (pre @ r # post) waivers) (strip (Course_Code r)) =
          Some \<lparr>grade = strip (Grade r), credits = row_credits r, points = q\<rparr>" .
qed

text \<open>
  C7. The rows \<open>(CSE115, 3, A)\<close> and \<open>(CSE115, 4, f)\<close>: both grades have a point value in
  the case-insensitive table, so the second is the later GPA-eligible attempt.
  audit\_l2.py ends with the second row's entry (4 credits, 0 points).
  \<open>audit_student\<close> of audit\_l3.py looks the grade up as written, finds nothing for \<open>f\<close>,
  and ends with the first row's entry (3 credits, 4 points) and a CGPA of 4.
\<close>

theorem l3_last_write_case_sensitive:
  "get_grade_points ''A'' = Some 4
   \<and> get_grade_points ''f'' = Some 0
   \<and> map_of (l2_course_history
         [\<lparr>Course_Code = ''CSE115'', Credits = Some 3, Grade = ''A''\<rparr>,
          \<lparr>Course_Code = ''CSE115'', Credits = Some 4, Grade = ''f''\<rparr>] []) ''CSE115''
       = Some \<lparr>grade = ''f'', credits = 4, points = 0\<rparr>
   \<and> map_of (latest_attempt
         [\<lparr>Course_Code = ''CSE115'', Credits = Some 3, Grade = ''A''\<rparr>,
          \<lparr>Course_Code = ''CSE115'', Credits = Some 4, Grade = ''f''\<rparr>]) ''CSE115''
       = Some \<lparr>grade = ''A'', credits = 3, points = 4\<rparr>
   \<and> cgpa (audit_student
         [\<lparr>Course_Code = ''CSE115'', Credits = Some 3, Grade = ''A''\<rparr>,
          \<lparr>Course_Code = ''CSE115'', Credits = Some 4, Grade = ''f''\<rparr>]
         initial_requirements) = 4"
  by code_simp

section \<open>Properties of the requirements resolver\<close>

lemma parse_lines_append:
  "parse_lines pn st (xs @ ys) =
     (case parse_lines pn st xs of Inl e \<Rightarrow> Inl e | Inr st' \<Rightarrow> parse_lines pn st' ys)"
  by (induction xs arbitrary: st) (auto split: sum.splits)

lemma parse_lines_snoc:
  "parse_lines pn st (xs @ [x]) =
     (case parse_lines pn st xs of Inl e \<Rightarrow> Inl e | Inr st' \<Rightarrow> parse_line pn st' x)"
  by (simp add: parse_lines_append split: sum.splits)

lemma parse_label_keeps:
  "parse_label st line = Inr st' \<Longrightarrow>
     target_program_found st' = target_program_found st
     \<and> min_cgpa (reqs st') = min_cgpa (reqs st)
     \<and> category_codes (reqs st') = category_codes (reqs st)"
  unfolding parse_label_def category_codes_def
  by (auto split: if_splits option.splits)

lemma add_course_codes:
  "category_codes (add_course sec c rq) \<subseteq> insert c (category_codes rq)"
  unfolding add_course_def category_codes_def
  by (cases sec; simp split: category.splits) auto

lemma add_course_min_cgpa:
  "min_cgpa (add_course sec c rq) = min_cgpa rq"
  unfolding add_course_def
  by (simp split: option.splits category.splits)

lemma parse_course_keeps:
  "target_program_found (parse_course st line) = target_program_found st"
  "min_cgpa (reqs (parse_course st line)) = min_cgpa (reqs st)"
  "category_codes (reqs (parse_course st line))
     \<subseteq> category_codes (reqs st) \<union> {c. course_match line = Some c}"
  using add_course_codes [of "current_section st" _ "reqs st"]
  by (auto simp: parse_course_def add_course_min_cgpa split: option.splits)

lemma parse_line_header:
  assumes "parse_line pn st raw = Inr st'" and "is_header raw"
  shows "reqs st' = reqs st" and "target_program_found st' = is_target_header pn raw"
  using assms
  by (auto simp: parse_line_def is_header_def is_target_header_def Let_def split: if_splits)

lemma parse_line_body:
  assumes "parse_line pn st raw = Inr st'" and "\<not> is_header raw"
  shows "target_program_found st' = target_program_found st"
    and "min_cgpa (reqs st') = min_cgpa (reqs st)"
    and "category_codes (reqs st')
           \<subseteq> category_codes (reqs st)
              \<union> (if target_program_found st then {c. course_match (strip raw) = Some c} else {})"
proof -
  from assms(2) have nm: "program_match (strip raw) = None"
    by (simp add: is_header_def)
  show "target_program_found st' = target_program_found st"
    using assms(1) nm parse_label_keeps parse_course_keeps(1)
    by (auto simp: parse_line_def Let_def split: if_splits sum.splits)
  show "min_cgpa (reqs st') = min_cgpa (reqs st)"
    using assms(1) nm parse_label_keeps parse_course_keeps(2)
    by (auto simp: parse_line_def Let_def split: if_splits sum.splits)
  show "category_codes (reqs st')
           \<subseteq> category_codes (reqs st)
              \<union> (if target_program_found st then {c. course_match (strip raw) = Some c} else {})"
  proof (cases "target_program_found st")
    case False
    with assms(1) nm show ?thesis by (simp add: parse_line_def Let_def)
  next
    case True
    with assms(1) nm obtain st1 where l: "parse_label st (strip raw) = Inr st1"
      and c: "st' = parse_course st1 (strip raw)"
      by (auto simp: parse_line_def Let_def split: sum.splits)
    from parse_label_keeps [OF l] parse_course_keeps(3) [of st1 "strip raw"] True c
    show ?thesis by auto
  qed
qed


lemma in_target_section_snoc:
  "k < length xs \<Longrightarrow> in_target_section (xs @ [x]) pn k = in_target_section xs pn k"
  unfolding in_target_section_def
  by (intro bex_cong ball_cong arg_cong2 [where f = "(\<and>)"] refl) (auto simp: nth_append)

lemma from_section_snoc: "from_section xs pn c \<Longrightarrow> from_section (xs @ [x]) pn c"
proof -
  assume "from_section xs pn c"
  then obtain k where k: "k < length xs" "in_target_section xs pn k"
    "course_match (strip (xs ! k)) = Some c"
    unfolding from_section_def by blast
  then have "k < length (xs @ [x]) \<and> in_target_section (xs @ [x]) pn k
      \<and> course_match (strip ((xs @ [x]) ! k)) = Some c"
    by (simp add: in_target_section_snoc nth_append)
  then show ?thesis unfolding from_section_def by blast
qed

lemma open_at_snoc_header:
  "is_header x \<Longrightarrow> open_at (xs @ [x]) pn = is_target_header pn x"
  unfolding open_at_def
proof (intro iffI)
  assume hx: "is_header x"
  assume "\<exists>h<length (xs @ [x]). is_target_header pn ((xs @ [x]) ! h) \<and>
       (\<forall>m. h < m \<and> m < length (xs @ [x]) \<longrightarrow> \<not> is_header ((xs @ [x]) ! m))"
  then obtain h where h: "h < length (xs @ [x])" "is_target_header pn ((xs @ [x]) ! h)"
    "\<forall>m. h < m \<and> m < length (xs @ [x]) \<longrightarrow> \<not> is_header ((xs @ [x]) ! m)" by blast
  have "h = length xs"
  proof (rule ccontr)
    assume "h \<noteq> length xs"
    with h(1) have "h < length xs" by simp
    with h(3) [rule_format, of "length xs"] have "\<not> is_header ((xs @ [x]) ! length xs)"
      by simp
    with hx show False by simp
  qed
  with h(2) show "is_target_header pn x" by simp
next
  assume "is_target_header pn x"
  then show "\<exists>h<length (xs @ [x]). is_target_header pn ((xs @ [x]) ! h) \<and>
       (\<forall>m. h < m \<and> m < length (xs @ [x]) \<longrightarrow> \<not> is_header ((xs @ [x]) ! m))"
    by (intro exI [of _ "length xs"]) auto
qed

lemma open_at_snoc_body:
  "\<not> is_header x \<Longrightarrow> open_at (xs @ [x]) pn = open_at xs pn"
  unfolding open_at_def
proof (intro iffI)
  assume nx: "\<not> is_header x"
  assume "\<exists>h<length (xs @ [x]). is_target_header pn ((xs @ [x]) ! h) \<and>
       (\<forall>m. h < m \<and> m < length (xs @ [x]) \<longrightarrow> \<not> is_header ((xs @ [x]) ! m))"
  then obtain h where h: "h < length (xs @ [x])" "is_target_header pn ((xs @ [x]) ! h)"
    "\<forall>m. h < m \<and> m < length (xs @ [x]) \<longrightarrow> \<not> is_header ((xs @ [x]) ! m)" by blast
  have "h \<noteq> length xs"
  proof
    assume "h = length xs"
    with h(2) have "is_target_header pn x" by simp
    then have "is_header x"
      by (auto simp: is_target_header_def is_header_def split: option.splits)
    with nx show False by simp
  qed
  with h(1) have hl: "h < length xs" by simp
  moreover from h(2) hl have "is_target_header pn (xs ! h)" by (simp add: nth_append)
  moreover have "\<forall>m. h < m \<and> m < length xs \<longrightarrow> \<not> is_header (xs ! m)"
  proof (intro allI impI)
    fix m assume m: "h < m \<and> m < length xs"
    with h(3) have "\<not> is_header ((xs @ [x]) ! m)" by simp
    with m show "\<not> is_header (xs ! m)" by (simp add: nth_append)
  qed
  ultimately show "\<exists>h<length xs. is_target_header pn (xs ! h) \<and>
       (\<forall>m. h < m \<and> m < length xs \<longrightarrow> \<not> is_header (xs ! m))" by blast
next
  assume nx: "\<not> is_header x"
  assume "\<exists>h<length xs. is_target_header pn (xs ! h) \<and>
       (\<forall>m. h < m \<and> m < length xs \<longrightarrow> \<not> is_header (xs ! m))"
  then obtain h where h: "h < length xs" "is_target_header pn (xs ! h)"
    "\<forall>m. h < m \<and> m < length xs \<longrightarrow> \<not> is_header (xs ! m)" by blast
  have "\<forall>m. h < m \<and> m < length (xs @ [x]) \<longrightarrow> \<not> is_header ((xs @ [x]) ! m)"
  proof (intro allI impI)
    fix m assume m: "h < m \<and> m < length (xs @ [x])"
    show "\<not> is_header ((xs @ [x]) ! m)"
    proof (cases "m < length xs")
      case True
      with h(3) m show ?thesis by (simp add: nth_append)
    next
      case False
      with m have "m = length xs" by simp
      with nx show ?thesis by simp
    qed
  qed
  with h(1,2) show "\<exists>h<length (xs @ [x]). is_target_header pn ((xs @ [x]) ! h) \<and>
       (\<forall>m. h < m \<and> m < length (xs @ [x]) \<longrightarrow> \<not> is_header ((xs @ [x]) ! m))"
    by (intro exI [of _ h]) (simp add: nth_append)
qed

lemma open_body_in_section:
  assumes "open_at xs pn" and "\<not> is_header x"
  shows "in_target_section (xs @ [x]) pn (length xs)"
proof -
  from assms(1) obtain h where h: "h < length xs" "is_target_header pn (xs ! h)"
    "\<forall>m. h < m \<and> m < length xs \<longrightarrow> \<not> is_header (xs ! m)"
    unfolding open_at_def by blast
  have "\<forall>m \<in> {h<..length xs}. \<not> is_header ((xs @ [x]) ! m)"
  proof
    fix m assume "m \<in> {h<..length xs}"
    then have m: "h < m" "m \<le> length xs" by simp_all
    show "\<not> is_header ((xs @ [x]) ! m)"
    proof (cases "m < length xs")
      case True
      with h(3) m show ?thesis by (simp add: nth_append)
    next
      case False
      with m have "m = length xs" by simp
      with assms(2) show ?thesis by simp
    qed
  qed
  moreover from h have "is_target_header pn ((xs @ [x]) ! h)" by (simp add: nth_append)
  ultimately show ?thesis
    unfolding in_target_section_def using h(1) by (intro bexI [of _ h]) simp_all
qed

lemma parse_lines_invariant:
  "parse_lines pn initial_pstate xs = Inr st \<Longrightarrow>
     target_program_found st = open_at xs pn
     \<and> (\<forall>c \<in> category_codes (reqs st). from_section xs pn c)"
proof (induction xs arbitrary: st rule: rev_induct)
  case Nil
  then have "st = initial_pstate" by simp
  then show ?case
    by (simp add: initial_pstate_def initial_requirements_def category_codes_def open_at_def)
next
  case (snoc x xs)
  from snoc.prems obtain st0 where p0: "parse_lines pn initial_pstate xs = Inr st0"
    and px: "parse_line pn st0 x = Inr st"
    by (auto simp: parse_lines_snoc split: sum.splits)
  from snoc.IH [OF p0] have f0: "target_program_found st0 = open_at xs pn"
    and c0: "\<forall>c \<in> category_codes (reqs st0). from_section xs pn c" by simp_all
  show ?case
  proof (cases "is_header x")
    case True
    from parse_line_header [OF px True] open_at_snoc_header [OF True] c0
    show ?thesis by (auto intro: from_section_snoc)
  next
    case False
    note b = parse_line_body [OF px False]
    have "target_program_found st = open_at (xs @ [x]) pn"
      using b(1) f0 open_at_snoc_body [OF False] by simp
    moreover have "\<forall>c \<in> category_codes (reqs st). from_section (xs @ [x]) pn c"
    proof
      fix c assume "c \<in> category_codes (reqs st)"
      with b(3) consider "c \<in> category_codes (reqs st0)"
        | "target_program_found st0" "course_match (strip x) = Some c"
        by (auto split: if_splits)
      then show "from_section (xs @ [x]) pn c"
      proof cases
        case 1
        with c0 show ?thesis by (auto intro: from_section_snoc)
      next
        case 2
        with f0 have "open_at xs pn" by simp
        from open_body_in_section [OF this False] 2(2)
        show ?thesis unfolding from_section_def
          by (intro exI [of _ "length xs"]) simp
      qed
    qed
    ultimately show ?thesis by simp
  qed
qed


lemma parse_line_no_target:
  assumes "\<not> is_target_header pn x" and "\<not> target_program_found st"
    and "current_section st = None"
  shows "parse_line pn st x = Inr st"
proof (cases "program_match (strip x)")
  case None
  with assms(2) show ?thesis by (simp add: parse_line_def Let_def)
next
  case (Some name)
  with assms(1) have "strip name \<noteq> pn" by (simp add: is_target_header_def)
  moreover from assms(2,3)
  have "st\<lparr>target_program_found := False, current_section := None\<rparr> = st" by simp
  ultimately show ?thesis using Some by (simp add: parse_line_def Let_def)
qed

lemma parse_lines_no_target:
  assumes "\<forall>l \<in> set xs. \<not> is_target_header pn l" and "\<not> target_program_found st"
    and "current_section st = None"
  shows "parse_lines pn st xs = Inr st"
  using assms
proof (induction xs)
  case Nil
  show ?case by simp
next
  case (Cons x xs)
  then have "parse_line pn st x = Inr st" by (intro parse_line_no_target) simp_all
  with Cons show ?case by simp
qed

lemma parse_line_min_cgpa:
  "parse_line pn st x = Inr st' \<Longrightarrow> min_cgpa (reqs st') = min_cgpa (reqs st)"
  using parse_line_header(1) [of pn st x st'] parse_line_body(2) [of pn st x st']
  by (cases "is_header x") simp_all

lemma parse_lines_min_cgpa:
  "parse_lines pn st xs = Inr st' \<Longrightarrow> min_cgpa (reqs st') = min_cgpa (reqs st)"
proof (induction xs arbitrary: st)
  case Nil
  then show ?case by simp
next
  case (Cons x xs)
  from Cons.prems obtain st1 where a: "parse_line pn st x = Inr st1"
    and b: "parse_lines pn st1 xs = Inr st'"
    by (auto split: sum.splits)
  from Cons.IH [OF b] parse_line_min_cgpa [OF a] show ?case by simp
qed

text \<open>
  C8. A code in any of the five category lists of the resolved requirements is the code
  of a bullet line that lies after a header of the target program with no program header
  between that header and the line itself. Lines before the first header of the target
  are without effect: the resolver returns for the whole document what it returns for
  the rest.
\<close>

theorem categories_from_target_section:
  "(parse_program_knowledge lines pn = Inr rq \<and> c \<in> category_codes rq
      \<longrightarrow> (\<exists>k < length lines. in_target_section lines pn k
                \<and> course_match (strip (lines ! k)) = Some c))
   \<and> ((\<forall>l \<in> set pre. \<not> is_target_header pn l)
      \<longrightarrow> parse_program_knowledge (pre @ rest) pn = parse_program_knowledge rest pn)"
proof (intro conjI impI)
  assume a: "parse_program_knowledge lines pn = Inr rq \<and> c \<in> category_codes rq"
  then obtain st where st: "parse_lines pn initial_pstate lines = Inr st" and "rq = reqs st"
    by (auto simp: parse_program_knowledge_def split: sum.splits)
  with a parse_lines_invariant [OF st] have "from_section lines pn c" by simp
  then show "\<exists>k < length lines. in_target_section lines pn k
                \<and> course_match (strip (lines ! k)) = Some c"
    by (simp add: from_section_def)
next
  assume "\<forall>l \<in> set pre. \<not> is_target_header pn l"
  then have "parse_lines pn initial_pstate pre = Inr initial_pstate"
    by (intro parse_lines_no_target) (simp_all add: initial_pstate_def)
  then show "parse_program_knowledge (pre @ rest) pn = parse_program_knowledge rest pn"
    by (simp add: parse_program_knowledge_def parse_lines_append)
qed

text \<open>
  C2, as the code has it. Whenever \<open>parse_program_knowledge\<close> returns, \<open>min_cgpa\<close> is 2.0:
  the branch for the \<open>Minimum CGPA\<close> label is \<open>pass\<close>, and nothing else assigns the field.
\<close>

theorem min_cgpa_always_default:
  "parse_program_knowledge lines pn = Inr rq \<Longrightarrow> min_cgpa rq = 2"
proof -
  assume "parse_program_knowledge lines pn = Inr rq"
  then obtain st where st: "parse_lines pn initial_pstate lines = Inr st" and "rq = reqs st"
    by (auto simp: parse_program_knowledge_def split: sum.splits)
  with parse_lines_min_cgpa [OF st] show ?thesis
    by (simp add: initial_pstate_def initial_requirements_def)
qed

lemma not_passed_Nil: "not_passed passed [] = []"
  by (simp add: not_passed_def)

text \<open>
  C9, as the code has it. When no line is a header of the target program, the resolver
  returns (it does not raise) the requirements it started from: 0 credits, a minimum
  CGPA of 2.0 and five empty lists. Against them no course is missing, and a transcript
  is eligible exactly when its CGPA is at least 2.0 and its earned credits at least 0.
\<close>

theorem unmatched_program:
  "(\<forall>l \<in> set lines. \<not> is_target_header pn l) \<longrightarrow>
     parse_program_knowledge lines pn =
       Inr \<lparr>total_credits_required = 0, min_cgpa = 2, mandatory_ged = [], core_math = [],
            major_core = [], core_business = [], core_science = []\<rparr>
     \<and> (is_eligible
          (audit_student rows
            \<lparr>total_credits_required = 0, min_cgpa = 2, mandatory_ged = [], core_math = [],
             major_core = [], core_business = [], core_science = []\<rparr>)
          \<lparr>total_credits_required = 0, min_cgpa = 2, mandatory_ged = [], core_math = [],
           major_core = [], core_business = [], core_science = []\<rparr>
        \<longleftrightarrow> cgpa (audit_student rows
                   \<lparr>total_credits_required = 0, min_cgpa = 2, mandatory_ged = [],
                    core_math = [], major_core = [], core_business = [],
                    core_science = []\<rparr>) \<ge> 2
            \<and> total_earned (audit_student rows
                   \<lparr>total_credits_required = 0, min_cgpa = 2, mandatory_ged = [],
                    core_math = [], major_core = [], core_business = [],
                    core_science = []\<rparr>) \<ge> 0)"
proof (intro impI conjI)
  assume "\<forall>l \<in> set lines. \<not> is_target_header pn l"
  then have "parse_lines pn initial_pstate lines = Inr initial_pstate"
    by (intro parse_lines_no_target) (simp_all add: initial_pstate_def)
  then show "parse_program_knowledge lines pn =
       Inr \<lparr>total_credits_required = 0, min_cgpa = 2, mandatory_ged = [], core_math = [],
            major_core = [], core_business = [], core_science = []\<rparr>"
    by (simp add: parse_program_knowledge_def initial_pstate_def initial_requirements_def)
next
  let ?R = "\<lparr>total_credits_required = 0, min_cgpa = 2, mandatory_ged = [], core_math = [],
            major_core = [], core_business = [], core_science = []\<rparr>"
  have "\<not> has_missing (audit_student rows ?R)"
    by (simp add: has_missing_def audit_student_def Let_def not_passed_Nil)
  then show "is_eligible (audit_student rows ?R) ?R
        \<longleftrightarrow> cgpa (audit_student rows ?R) \<ge> 2 \<and> total_earned (audit_student rows ?R) \<ge> 0"
    by (simp add: is_eligible_def Let_def)
qed


text \<open>
  Two sections, a stray bullet before the first header: resolving the second program
  gives \<open>ENG102\<close> alone, as for the second section by itself.
\<close>

theorem categories_from_target_section_witness:
  "parse_program_knowledge
     ([''- **Mandatory GED**:'', ''- ENG101: stray'',
       ''## [Program: Business Administration]'', ''  - BUS101: Intro'']
      @ [''## [Program: Computer Science & Engineering]'', ''- **Mandatory GED**:'',
         ''  - ENG102: Composition''])
     ''Computer Science & Engineering''
     = Inr \<lparr>total_credits_required = 0, min_cgpa = 2, mandatory_ged = [''ENG102''],
            core_math = [], major_core = [], core_business = [], core_science = []\<rparr>
   \<and> parse_program_knowledge
     [''## [Program: Computer Science & Engineering]'', ''- **Mandatory GED**:'',
      ''  - ENG102: Composition'']
     ''Computer Science & Engineering''
     = Inr \<lparr>total_credits_required = 0, min_cgpa = 2, mandatory_ged = [''ENG102''],
            core_math = [], major_core = [], core_business = [], core_science = []\<rparr>
   \<and> (\<exists>k < length
         ([''- **Mandatory GED**:'', ''- ENG101: stray'',
           ''## [Program: Business Administration]'', ''  - BUS101: Intro'']
          @ [''## [Program: Computer Science & Engineering]'', ''- **Mandatory GED**:'',
             ''  - ENG102: Composition'']).
       in_target_section
         ([''- **Mandatory GED**:'', ''- ENG101: stray'',
           ''## [Program: Business Administration]'', ''  - BUS101: Intro'']
          @ [''## [Program: Computer Science & Engineering]'', ''- **Mandatory GED**:'',
             ''  - ENG102: Composition''])
         ''Computer Science & Engineering'' k
       \<and> course_match (strip
           (([''- **Mandatory GED**:'', ''- ENG101: stray'',
              ''## [Program: Business Administration]'', ''  - BUS101: Intro'']
             @ [''## [Program: Computer Science & Engineering]'', ''- **Mandatory GED**:'',
                ''  - ENG102: Composition'']) ! k)) = Some ''ENG102'')"
proof -
  let ?pre = "[''- **Mandatory GED**:'', ''- ENG101: stray'',
       ''## [Program: Business Administration]'', ''  - BUS101: Intro'']"
  let ?rest = "[''## [Program: Computer Science & Engineering]'', ''- **Mandatory GED**:'',
         ''  - ENG102: Composition'']"
  let ?pn = "''Computer Science & Engineering''"
  let ?R = "\<lparr>total_credits_required = 0, min_cgpa = 2, mandatory_ged = [''ENG102''],
            core_math = [], major_core = [], core_business = [], core_science = []\<rparr>"
  have r: "parse_program_knowledge ?rest ?pn = Inr ?R"
    by code_simp
  have p: "\<forall>l \<in> set ?pre. \<not> is_target_header ?pn l"
    by code_simp
  have c: "''ENG102'' \<in> category_codes ?R"
    by (simp add: category_codes_def)
  note t = categories_from_target_section [of "?pre @ ?rest" ?pn ?R "''ENG102''" ?pre ?rest]
  from t p r have a: "parse_program_knowledge (?pre @ ?rest) ?pn = Inr ?R"
    by simp
  with t c have "\<exists>k < length (?pre @ ?rest). in_target_section (?pre @ ?rest) ?pn k
       \<and> course_match (strip ((?pre @ ?rest) ! k)) = Some ''ENG102''"
    by blast
  with a r show ?thesis by blast
qed

text \<open>
  A section whose \<open>Minimum CGPA\<close> line says 3.0 resolves to a minimum of 2.0.
\<close>

theorem min_cgpa_always_default_witness:
  "\<exists>rq. parse_program_knowledge
      [''## [Program: Physics]'', ''- **Total Credits Required**: 120'',
       ''- **Minimum CGPA**: 3.0''] ''Physics'' = Inr rq \<and> min_cgpa rq = 2"
proof -
  have e: "parse_program_knowledge
      [''## [Program: Physics]'', ''- **Total Credits Required**: 120'',
       ''- **Minimum CGPA**: 3.0''] ''Physics''
     = Inr \<lparr>total_credits_required = 120, min_cgpa = 2, mandatory_ged = [],
            core_math = [], major_core = [], core_business = [], core_science = []\<rparr>"
    by code_simp
  from min_cgpa_always_default [OF e] e show ?thesis by blast
qed

text \<open>
  C2, as stated, fails: the value written on the label line of this document is 3.0, and
  the resolved \<open>min_cgpa\<close> is 2.0.
\<close>

theorem min_cgpa_label_counterexample:
  "spec_min_cgpa
      [''## [Program: Physics]'', ''- **Total Credits Required**: 120'',
       ''- **Minimum CGPA**: 3.0''] ''Physics'' = 3
   \<and> parse_program_knowledge
      [''## [Program: Physics]'', ''- **Total Credits Required**: 120'',
       ''- **Minimum CGPA**: 3.0''] ''Physics''
     = Inr \<lparr>total_credits_required = 120, min_cgpa = 2, mandatory_ged = [],
            core_math = [], major_core = [], core_business = [], core_science = []\<rparr>"
  by code_simp

text \<open>
  No section for \<open>Physics\<close>: the default requirements, and a transcript with one A is
  eligible.
\<close>

theorem unmatched_program_witness:
  "parse_program_knowledge
      [''## [Program: Business Administration]'', ''  - BUS101: Intro''] ''Physics''
     = Inr \<lparr>total_credits_required = 0, min_cgpa = 2, mandatory_ged = [], core_math = [],
            major_core = [], core_business = [], core_science = []\<rparr>
   \<and> is_eligible
        (audit_student [\<lparr>Course_Code = ''CSE115'', Credits = Some 3, Grade = ''A''\<rparr>]
           \<lparr>total_credits_required = 0, min_cgpa = 2, mandatory_ged = [], core_math = [],
            major_core = [], core_business = [], core_science = []\<rparr>)
        \<lparr>total_credits_required = 0, min_cgpa = 2, mandatory_ged = [], core_math = [],
         major_core = [], core_business = [], core_science = []\<rparr>"
proof -
  let ?R = "\<lparr>total_credits_required = 0, min_cgpa = 2, mandatory_ged = [], core_math = [],
            major_core = [], core_business = [], core_science = []\<rparr>"
  let ?rows = "[\<lparr>Course_Code = ''CSE115'', Credits = Some 3, Grade = ''A''\<rparr>]"
  have h: "\<forall>l \<in> set [''## [Program: Business Administration]'', ''  - BUS101: Intro''].
             \<not> is_target_header ''Physics'' l"
    by code_simp
  have g: "cgpa (audit_student ?rows ?R) \<ge> 2 \<and> total_earned (audit_student ?rows ?R) \<ge> 0"
    by code_simp
  from unmatched_program [of "[''## [Program: Business Administration]'', ''  - BUS101: Intro'']"
      "''Physics''" ?rows] h g
  show ?thesis by blast
qed

text \<open>
  C9, as stated, fails: against the same default requirements the non-empty transcript
  with the single row \<open>(CSE115, 3, F)\<close> has a CGPA of 0 and is not eligible.
\<close>

theorem unmatched_program_counterexample:
  "parse_program_knowledge
      [''## [Program: Business Administration]'', ''  - BUS101: Intro''] ''Physics''
     = Inr \<lparr>total_credits_required = 0, min_cgpa = 2, mandatory_ged = [], core_math = [],
            major_core = [], core_business = [], core_science = []\<rparr>
   \<and> [\<lparr>Course_Code = ''CSE115'', Credits = Some 3, Grade = ''F''\<rparr>] \<noteq> []
   \<and> \<not> is_eligible
        (audit_student [\<lparr>Course_Code = ''CSE115'', Credits = Some 3, Grade = ''F''\<rparr>]
           \<lparr>total_credits_required = 0, min_cgpa = 2, mandatory_ged = [], core_math = [],
            major_core = [], core_business = [], core_science = []\<rparr>)
        \<lparr>total_credits_required = 0, min_cgpa = 2, mandatory_ged = [], core_math = [],
         major_core = [], core_business = [], core_science = []\<rparr>"
  by code_simp

end
